theory Spec2Isabelle
  imports
    Complex_Main
    "HOL-Library.Sublist"
    "HOL-Library.Char_ord"
    "HOL-Library.List_Lexorder"
    "HOL-Library.Multiset"
begin

section \<open>Python strings\<close>

text \<open>
  A Python \<open>str\<close> is modelled as a \<^typ>\<open>string\<close>, the list of the bytes of its UTF-8
  encoding (a lone surrogate taking the three bytes that the same scheme gives it).
  Equality, concatenation, the substring test \<open>in\<close> and the ordering of two \<open>str\<close>
  values are then equality, append, the contiguous-sublist test and the lexicographic
  order of the byte lists.

  \<open>len(s)\<close> counts code points: the bytes that are not continuation bytes
  (\<open>0x80\<close> to \<open>0xBF\<close>).
\<close>

definition str_len :: "string \<Rightarrow> nat" where
  "str_len s = length (filter (\<lambda>c. \<not> (128 \<le> (of_char c :: nat) \<and> (of_char c :: nat) < 192)) s)"

text \<open>\<open>p in s\<close> on two strings: \<open>p\<close> occurs in \<open>s\<close> as a contiguous substring.\<close>

fun str_in :: "string \<Rightarrow> string \<Rightarrow> bool" where
  "str_in p [] = (p = [])"
| "str_in p (c # cs) = (prefix p (c # cs) \<or> str_in p cs)"

text \<open>\<open>sep.join(xs)\<close>.\<close>

fun str_join :: "string \<Rightarrow> string list \<Rightarrow> string" where
  "str_join sep [] = []"
| "str_join sep [x] = x"
| "str_join sep (x # y # ys) = x @ sep @ str_join sep (y # ys)"

text \<open>
  The methods that consult the Unicode character database are not defined here: they
  are parameters of every function that calls them.
  \<^item> \<open>lower\<close> stands for \<open>str.lower()\<close>,
  \<^item> \<open>capitalize\<close> for \<open>str.capitalize()\<close>,
  \<^item> \<open>split\<close> for \<open>str.split()\<close> without arguments,
  \<^item> \<open>words\<close> for \<open>re.findall(r'\b\w+\b', _)\<close>.

  What follows are their restrictions to ASCII text, which serve as concrete instances.
  On a text of ASCII characters only, \<open>str.lower()\<close> moves \<open>A\<close> to \<open>Z\<close> to \<open>a\<close> to
  \<open>z\<close> and leaves the rest, \<open>str.split()\<close> cuts at the characters with the codes 9 to
  13, 28 to 31 and 32, and \<open>\w\<close> holds of the letters, the digits and the underscore.
\<close>

definition is_ascii :: "string \<Rightarrow> bool" where
  "is_ascii s = list_all (\<lambda>c. (of_char c :: nat) < 128) s"

definition ascii_lower_char :: "char \<Rightarrow> char" where
  "ascii_lower_char c =
     (let n = (of_char c :: nat) in if 65 \<le> n \<and> n \<le> 90 then char_of (n + 32) else c)"

definition ascii_lower :: "string \<Rightarrow> string" where
  "ascii_lower s = map ascii_lower_char s"

definition ascii_space :: "char \<Rightarrow> bool" where
  "ascii_space c =
     (let n = (of_char c :: nat) in (9 \<le> n \<and> n \<le> 13) \<or> (28 \<le> n \<and> n \<le> 32))"

text \<open>
  The runs of characters satisfying \<open>P\<close>, from left to right; \<open>cur\<close> is the run being
  read, in reverse.
\<close>

fun runs :: "(char \<Rightarrow> bool) \<Rightarrow> string \<Rightarrow> string \<Rightarrow> string list" where
  "runs P cur [] = (if cur = [] then [] else [rev cur])"
| "runs P cur (c # cs) =
     (if P c then runs P (c # cur) cs
      else if cur = [] then runs P [] cs
      else rev cur # runs P [] cs)"

definition ascii_split :: "string \<Rightarrow> string list" where
  "ascii_split s = runs (\<lambda>c. \<not> ascii_space c) [] s"

definition ascii_word_char :: "char \<Rightarrow> bool" where
  "ascii_word_char c =
     (let n = (of_char c :: nat) in
        (48 \<le> n \<and> n \<le> 57) \<or> (65 \<le> n \<and> n \<le> 90) \<or> n = 95 \<or> (97 \<le> n \<and> n \<le> 122))"

definition ascii_words :: "string \<Rightarrow> string list" where
  "ascii_words s = runs ascii_word_char [] s"

text \<open>
  What is assumed of \<open>str.lower()\<close> where a property needs it: on ASCII text it is the
  ASCII folding, and it never makes a text shorter (every code point is mapped to one
  or more code points).
\<close>

definition lower_semantics :: "(string \<Rightarrow> string) \<Rightarrow> bool" where
  "lower_semantics lower =
     ((\<forall>s. is_ascii s \<longrightarrow> lower s = ascii_lower s) \<and> (\<forall>s. str_len s \<le> str_len (lower s)))"

section \<open>The static tables\<close>

record knowledge_category =
  kc_category :: string
  kc_conditions :: "string list"
  kc_symptoms :: "string list"
  kc_severity_factors :: "string list"

text \<open>
  \<open>_initialize_medical_knowledge\<close>: the dictionary in its insertion order, which is the
  order in which \<open>.items()\<close> and \<open>.values()\<close> visit it.
\<close>

definition medical_knowledge :: "knowledge_category list" where
  "medical_knowledge =
   [\<lparr>kc_category = ''respiratory'',
      kc_conditions = [''Common Cold'', ''Flu'', ''Bronchitis'', ''Pneumonia'', ''Asthma''],
      kc_symptoms = [''cough'', ''sore throat'', ''runny nose'', ''congestion'',
                     ''shortness of breath'', ''wheezing''],
      kc_severity_factors = [''fever'', ''chest pain'', ''difficulty breathing'']\<rparr>,
    \<lparr>kc_category = ''gastrointestinal'',
      kc_conditions = [''Food Poisoning'', ''Gastritis'', ''Gastroenteritis'',
                       ''Irritable Bowel Syndrome''],
      kc_symptoms = [''nausea'', ''vomiting'', ''diarrhea'', ''abdominal pain'', ''bloating'',
                     ''loss of appetite''],
      kc_severity_factors = [''severe pain'', ''blood in stool'', ''dehydration'']\<rparr>,
    \<lparr>kc_category = ''neurological'',
      kc_conditions = [''Migraine'', ''Tension Headache'', ''Cluster Headache'', ''Concussion''],
      kc_symptoms = [''headache'', ''dizziness'', ''nausea'', ''sensitivity to light'',
                     ''confusion''],
      kc_severity_factors = [''severe pain'', ''loss of consciousness'', ''numbness'']\<rparr>,
    \<lparr>kc_category = ''cardiovascular'',
      kc_conditions = [''Hypertension'', ''Angina'', ''Heart Attack'', ''Arrhythmia''],
      kc_symptoms = [''chest pain'', ''shortness of breath'', ''fatigue'', ''dizziness'',
                     ''irregular heartbeat''],
      kc_severity_factors = [''severe chest pain'', ''pain radiating to arm'', ''sweating'']\<rparr>,
    \<lparr>kc_category = ''musculoskeletal'',
      kc_conditions = [''Sprain'', ''Strain'', ''Arthritis'', ''Fracture'', ''Muscle Pain''],
      kc_symptoms = [''pain'', ''swelling'', ''stiffness'', ''limited range of motion'',
                     ''bruising''],
      kc_severity_factors = [''severe pain'', ''deformity'', ''inability to move'']\<rparr>,
    \<lparr>kc_category = ''dermatological'',
      kc_conditions = [''Rash'', ''Eczema'', ''Psoriasis'', ''Allergic Reaction'', ''Infection''],
      kc_symptoms = [''rash'', ''itching'', ''redness'', ''swelling'', ''blisters''],
      kc_severity_factors = [''severe itching'', ''fever'', ''spreading rash'']\<rparr>]"

text \<open>\<open>_initialize_emergency_keywords\<close>, one list per tier.\<close>

definition critical_keywords :: "string list" where
  "critical_keywords =
   [''chest pain'', ''difficulty breathing'', ''severe bleeding'', ''loss of consciousness'',
    ''numbness'', ''paralysis'', ''severe head injury'', ''severe abdominal pain'']"

definition urgent_keywords :: "string list" where
  "urgent_keywords =
   [''high fever'', ''severe pain'', ''sudden weakness'', ''vision changes'',
    ''severe allergic reaction'', ''poisoning'', ''suicidal thoughts'']"

definition warning_keywords :: "string list" where
  "warning_keywords =
   [''persistent vomiting'', ''severe dehydration'', ''unexplained weight loss'',
    ''persistent cough'', ''blood in stool'', ''severe headache'']"

record condition_profile =
  cp_symptoms :: "string list"
  cp_duration :: string
  cp_severity :: string
  cp_treatments :: "string list"
  cp_when_to_seek_care :: string

text \<open>\<open>_initialize_condition_database\<close>, in insertion order; the names are the keys.\<close>

definition condition_database :: "(string \<times> condition_profile) list" where
  "condition_database =
   [(''Common Cold'',
     \<lparr>cp_symptoms = [''runny nose'', ''congestion'', ''sneezing'', ''sore throat'', ''cough''],
      cp_duration = ''3-7 days'',
      cp_severity = ''mild'',
      cp_treatments = [''rest'', ''fluids'', ''over-the-counter medications''],
      cp_when_to_seek_care = ''if symptoms persist beyond 10 days or worsen''\<rparr>),
    (''Influenza'',
     \<lparr>cp_symptoms = [''fever'', ''body aches'', ''fatigue'', ''headache'', ''cough'',
                     ''sore throat''],
      cp_duration = ''1-2 weeks'',
      cp_severity = ''moderate'',
      cp_treatments = [''rest'', ''fluids'', ''antiviral medications if prescribed''],
      cp_when_to_seek_care = ''if high fever, difficulty breathing, or severe symptoms''\<rparr>),
    (''Migraine'',
     \<lparr>cp_symptoms = [''severe headache'', ''nausea'', ''sensitivity to light'', ''aura''],
      cp_duration = ''4-72 hours'',
      cp_severity = ''moderate to severe'',
      cp_treatments = [''pain medications'', ''rest in dark room'', ''avoid triggers''],
      cp_when_to_seek_care = ''if headache is worst ever, with fever or confusion''\<rparr>),
    (''Gastroenteritis'',
     \<lparr>cp_symptoms = [''nausea'', ''vomiting'', ''diarrhea'', ''abdominal cramps'', ''fever''],
      cp_duration = ''1-3 days'',
      cp_severity = ''mild to moderate'',
      cp_treatments = [''rest'', ''clear fluids'', ''bland diet'', ''rehydration''],
      cp_when_to_seek_care =
        ''if severe dehydration, blood in stool, or persistent vomiting''\<rparr>)]"

section \<open>The emergency classifier\<close>

record emergency_check =
  is_emergency :: bool
  urgency_level :: string
  warning_signs :: "string list"
  recommendation :: string

text \<open>
  The three loops of \<open>check_emergency_symptoms\<close> update the local variables
  \<open>emergency_found\<close>, \<open>urgency_level\<close> and \<open>warning_signs\<close>; the triple below is
  their state, and each step function is one loop body.
\<close>

type_synonym scan_state = "bool \<times> string \<times> string list"

fun critical_step :: "string \<Rightarrow> string \<Rightarrow> scan_state \<Rightarrow> scan_state" where
  "critical_step symptoms_lower symptom (emergency_found, level, signs) =
     (if str_in symptom symptoms_lower
      then (True, ''critical'', signs @ [''Critical: '' @ symptom])
      else (emergency_found, level, signs))"

fun urgent_step :: "string \<Rightarrow> string \<Rightarrow> scan_state \<Rightarrow> scan_state" where
  "urgent_step symptoms_lower symptom (emergency_found, level, signs) =
     (if str_in symptom symptoms_lower
      then (True, ''urgent'', signs @ [''Urgent: '' @ symptom])
      else (emergency_found, level, signs))"

fun warning_step :: "string \<Rightarrow> string \<Rightarrow> scan_state \<Rightarrow> scan_state" where
  "warning_step symptoms_lower symptom (emergency_found, level, signs) =
     (if str_in symptom symptoms_lower
      then (emergency_found, level, signs @ [''Warning: '' @ symptom])
      else (emergency_found, level, signs))"

definition emergency_scan :: "(string \<Rightarrow> string) \<Rightarrow> string \<Rightarrow> scan_state" where
  "emergency_scan lower symptoms =
     (let symptoms_lower = lower symptoms;
          st1 = fold (critical_step symptoms_lower) critical_keywords (False, ''low'', []);
          st2 = (if \<not> fst st1 then fold (urgent_step symptoms_lower) urgent_keywords st1
                 else st1)
      in fold (warning_step symptoms_lower) warning_keywords st2)"

definition check_emergency_symptoms ::
  "(string \<Rightarrow> string) \<Rightarrow> string \<Rightarrow> emergency_check" where
  "check_emergency_symptoms lower symptoms =
     (case emergency_scan lower symptoms of (emergency_found, level, signs) \<Rightarrow>
        \<lparr>is_emergency = emergency_found,
         urgency_level = level,
         warning_signs = signs,
         recommendation =
           (if level = ''critical''
            then ''Call emergency services immediately or go to nearest emergency room''
            else if level = ''urgent'' then ''Seek medical attention within 24 hours''
            else ''Monitor symptoms and seek care if they worsen'')\<rparr>)"

text \<open>
  The phrases of a tier that occur in the text as case-insensitive substrings, that is,
  as substrings of the lower-cased text, in the tier's declared order.
\<close>

definition tier_matches ::
  "(string \<Rightarrow> string) \<Rightarrow> string list \<Rightarrow> string \<Rightarrow> string list" where
  "tier_matches lower tier symptoms = filter (\<lambda>p. sublist p (lower symptoms)) tier"

section \<open>Risk and confidence labels\<close>

definition assess_risk :: "int \<Rightarrow> string \<Rightarrow> emergency_check \<Rightarrow> string" where
  "assess_risk age severity emergency =
     (if is_emergency emergency then ''Critical''
      else
        (let risk_factors = (0::int);
             risk_factors = (if age < 5 \<or> age > 65 then risk_factors + 1 else risk_factors);
             risk_factors = (if severity = ''severe'' then risk_factors + 2
                             else if severity = ''moderate'' then risk_factors + 1
                             else risk_factors)
         in if risk_factors \<ge> 3 then ''High''
            else if risk_factors \<ge> 1 then ''Medium''
            else ''Low''))"

text \<open>The risk points of the specification.\<close>

definition risk_points :: "int \<Rightarrow> string \<Rightarrow> int" where
  "risk_points age severity =
     (if age < 5 \<or> age > 65 then 1 else 0) +
     (if severity = ''severe'' then 2 else if severity = ''moderate'' then 1 else 0)"

definition calculate_confidence ::
  "(string \<Rightarrow> string list) \<Rightarrow> string list \<Rightarrow> string \<Rightarrow> string" where
  "calculate_confidence split conditions symptoms =
     (if conditions = [] then ''Low''
      else
        (let symptom_length = length (split symptoms);
             condition_count = length conditions
         in if symptom_length > 20 \<and> condition_count \<le> 2 then ''High''
            else if symptom_length > 10 \<and> condition_count \<le> 3 then ''Medium''
            else ''Low''))"

section \<open>The text normalizer\<close>

text \<open>The stop words are a Python set, used for membership only.\<close>

definition stop_words :: "string list" where
  "stop_words =
   [''the'', ''a'', ''an'', ''and'', ''or'', ''but'', ''in'', ''on'', ''at'', ''to'', ''for'',
    ''of'', ''with'', ''by'']"

definition symptom_indicators :: "string list" where
  "symptom_indicators =
   [''pain'', ''ache'', ''fever'', ''cough'', ''sneeze'', ''rash'', ''swell'', ''nausea'',
    ''vomit'', ''diarrhea'', ''headache'', ''dizziness'', ''fatigue'', ''weakness'']"

definition is_symptom_word :: "(string \<Rightarrow> string) \<Rightarrow> string \<Rightarrow> bool" where
  "is_symptom_word lower word =
     list_ex (\<lambda>indicator. str_in indicator (lower word)) symptom_indicators"

definition cleaned_words ::
  "(string \<Rightarrow> string) \<Rightarrow> (string \<Rightarrow> string list) \<Rightarrow> string \<Rightarrow> string list" where
  "cleaned_words lower words symptoms =
     filter (\<lambda>word. lower word \<notin> set stop_words \<and> str_len word > 2) (words symptoms)"

text \<open>
  The grouping loop of \<open>_normalize_symptoms\<close>; its state is the pair of
  \<open>symptom_groups\<close> and \<open>current_group\<close>.
\<close>

fun group_step ::
  "(string \<Rightarrow> string) \<Rightarrow> string \<Rightarrow> string list \<times> string list \<Rightarrow> string list \<times> string list"
where
  "group_step lower word (symptom_groups, current_group) =
     (if is_symptom_word lower word
      then (if current_group \<noteq> []
            then (symptom_groups @ [str_join '' '' current_group], [word])
            else (symptom_groups, [word]))
      else (symptom_groups, current_group @ [word]))"

text \<open>The value of \<open>symptom_groups\<close> when the last group has been appended.\<close>

definition group_words :: "(string \<Rightarrow> string) \<Rightarrow> string list \<Rightarrow> string list" where
  "group_words lower cleaned =
     (case fold (group_step lower) cleaned ([], []) of (symptom_groups, current_group) \<Rightarrow>
        if current_group \<noteq> [] then symptom_groups @ [str_join '' '' current_group]
        else symptom_groups)"

definition normalize_symptoms ::
  "(string \<Rightarrow> string) \<Rightarrow> (string \<Rightarrow> string list) \<Rightarrow> string \<Rightarrow> string list" where
  "normalize_symptoms lower words symptoms =
     (let symptom_groups = group_words lower (cleaned_words lower words symptoms)
      in if symptom_groups \<noteq> [] then symptom_groups
         else cleaned_words lower words symptoms)"

section \<open>The condition scorer\<close>

text \<open>
  The scores are sums of the increments 1 and 0.5, which Python's floats represent
  exactly; they are modelled as rationals.
\<close>

definition partial_step :: "string \<Rightarrow> string \<Rightarrow> rat \<Rightarrow> rat" where
  "partial_step symptom known_symptom score =
     (if str_in symptom known_symptom \<or> str_in known_symptom symptom then score + 1 / 2
      else score)"

definition symptom_step :: "string list \<Rightarrow> string \<Rightarrow> rat \<Rightarrow> rat" where
  "symptom_step known symptom score =
     fold (partial_step symptom) known (if symptom \<in> set known then score + 1 else score)"

text \<open>The value of \<open>score\<close> after the loop over the phrases, for one condition.\<close>

definition condition_score :: "knowledge_category \<Rightarrow> string list \<Rightarrow> rat" where
  "condition_score data symptoms = fold (symptom_step (kc_symptoms data)) symptoms 0"

text \<open>
  \<open>d[k] = v\<close> on a dictionary kept as a list in insertion order: an existing key keeps
  its place, a new key goes last.
\<close>

fun dict_set :: "('k \<times> 'v) list \<Rightarrow> 'k \<Rightarrow> 'v \<Rightarrow> ('k \<times> 'v) list" where
  "dict_set [] k v = [(k, v)]"
| "dict_set ((k', v') # d) k v =
     (if k' = k then (k, v) # d else (k', v') # dict_set d k v)"

definition condition_step ::
  "knowledge_category \<Rightarrow> string list \<Rightarrow> string \<Rightarrow> (string \<times> rat) list \<Rightarrow> (string \<times> rat) list"
where
  "condition_step data symptoms condition symptom_scores =
     (let score = condition_score data symptoms
      in if score > 0 then dict_set symptom_scores condition score else symptom_scores)"

definition score_conditions ::
  "knowledge_category list \<Rightarrow> string list \<Rightarrow> (string \<times> rat) list" where
  "score_conditions kb symptoms =
     fold (\<lambda>data. fold (condition_step data symptoms) (kc_conditions data)) kb []"

text \<open>
  \<open>sorted(xs, key=f, reverse=True)\<close>: CPython reverses the list, sorts it stably in
  ascending order and reverses the result, so that equal keys keep their order.
\<close>

definition sorted_reverse :: "('a \<Rightarrow> rat) \<Rightarrow> 'a list \<Rightarrow> 'a list" where
  "sorted_reverse f xs = rev (sort_key f (rev xs))"

text \<open>
  The candidates that the last loop of \<open>_identify_conditions\<close> keeps, with their
  scores, before the truncation.
\<close>

definition ranked_conditions :: "string list \<Rightarrow> (string \<times> rat) list" where
  "ranked_conditions symptoms =
     filter (\<lambda>(condition, score). score \<ge> 1)
       (sorted_reverse snd (score_conditions medical_knowledge symptoms))"

definition identify_conditions :: "string list \<Rightarrow> int \<Rightarrow> string \<Rightarrow> string list" where
  "identify_conditions symptoms age gender = take 5 (map fst (ranked_conditions symptoms))"

text \<open>
  Every (condition, score) pair that the two outer loops compute, in the declaration
  order of the knowledge base, the zero scores included.
\<close>

definition scored_pairs :: "knowledge_category list \<Rightarrow> string list \<Rightarrow> (string \<times> rat) list" where
  "scored_pairs kb symptoms =
     concat (map (\<lambda>data. map (\<lambda>condition. (condition, condition_score data symptoms))
                            (kc_conditions data)) kb)"

text \<open>
  The contribution of one phrase as the specification words it: 1 for an exact match,
  plus 0.5 for each known phrase that contains the phrase or is contained in it.
\<close>

definition phrase_points :: "string list \<Rightarrow> string \<Rightarrow> rat" where
  "phrase_points known symptom =
     (if symptom \<in> set known then 1 else 0) +
     of_nat (length (filter (\<lambda>k. sublist symptom k \<or> sublist k symptom) known)) / 2"

section \<open>The recommendation synthesizer\<close>

record recommendations =
  actions :: "string list"
  emergency_warnings :: "string list"
  self_care :: "string list"
  when_to_seek_care :: "string list"
  follow_up :: "string list"

definition emergency_warning_text :: string where
  "emergency_warning_text =
     [CHR 0xC3, CHR 0xA2, CHR 0xC5, CHR 0xA1, CHR 0xC2, CHR 0xA0, CHR 0xC3, CHR 0xAF,
      CHR 0xC2, CHR 0xB8] @
     '' SEEK IMMEDIATE MEDICAL ATTENTION - These symptoms may require emergency care''"

text \<open>The body of the loop over the conditions: a lookup in the profile table.\<close>

definition profile_step :: "string \<Rightarrow> recommendations \<Rightarrow> recommendations" where
  "profile_step condition r =
     (case map_of condition_database condition of
        None \<Rightarrow> r
      | Some condition_info \<Rightarrow>
          r\<lparr>self_care := self_care r @ cp_treatments condition_info,
            when_to_seek_care := when_to_seek_care r @ [cp_when_to_seek_care condition_info]\<rparr>)"

text \<open>The five lists as they stand before the duplicates are removed.\<close>

definition collect_recommendations ::
  "string list \<Rightarrow> string \<Rightarrow> string \<Rightarrow> emergency_check \<Rightarrow> recommendations" where
  "collect_recommendations conditions severity duration emergency =
     (let r = \<lparr>actions = [], emergency_warnings = [], self_care = [],
                when_to_seek_care = [], follow_up = []\<rparr>;
          r = (if is_emergency emergency
               then r\<lparr>emergency_warnings := emergency_warnings r @ [emergency_warning_text],
                      actions := actions r @
                        [''Call emergency services or go to nearest emergency room'']\<rparr>
               else r);
          r = fold profile_step conditions r;
          r = (if severity = ''severe''
               then r\<lparr>actions := actions r @ [''Consider seeking medical attention today'']\<rparr>
               else if severity = ''moderate'' \<and>
                       duration \<in> set [''4_7_days'', ''1_2_weeks'', ''more_than_2_weeks'']
               then r\<lparr>actions := actions r @
                        [''Schedule an appointment with your healthcare provider'']\<rparr>
               else r);
          r = (if duration = ''more_than_2_weeks''
               then r\<lparr>actions := actions r @
                        [''Persistent symptoms may require medical evaluation'']\<rparr>
               else r);
          r = r\<lparr>self_care := self_care r @
                  [''Get adequate rest'', ''Stay hydrated'', ''Monitor symptoms for changes'',
                   ''Avoid known triggers or irritants'']\<rparr>;
          r = r\<lparr>follow_up := follow_up r @
                  [''Monitor symptoms and seek care if they worsen'']\<rparr>
      in (case conditions of
            [] \<Rightarrow> r
          | first # _ \<Rightarrow>
              r\<lparr>follow_up := follow_up r @
                  [''Follow up with healthcare provider about '' @ first]\<rparr>))"

text \<open>
  \<open>list(set(xs))\<close>: Python leaves the iteration order of a set unspecified, so the
  conversion is a parameter \<open>list_set\<close> of the functions that use it. What the language
  guarantees of it is that the result holds the elements of \<open>xs\<close>, each of them once.
\<close>

definition set_semantics :: "(string list \<Rightarrow> string list) \<Rightarrow> bool" where
  "set_semantics list_set = (\<forall>xs. distinct (list_set xs) \<and> set (list_set xs) = set xs)"

definition generate_recommendations ::
  "(string list \<Rightarrow> string list) \<Rightarrow> string list \<Rightarrow> string \<Rightarrow> string \<Rightarrow> emergency_check
     \<Rightarrow> recommendations" where
  "generate_recommendations list_set conditions severity duration emergency =
     (let r = collect_recommendations conditions severity duration emergency
      in \<lparr>actions = list_set (actions r),
          emergency_warnings = list_set (emergency_warnings r),
          self_care = list_set (self_care r),
          when_to_seek_care = list_set (when_to_seek_care r),
          follow_up = list_set (follow_up r)\<rparr>)"

definition emergency_summary_text :: string where
  "emergency_summary_text =
     [CHR 0xC3, CHR 0xB0, CHR 0xC5, CHR 0xB8, CHR 0xC5, CHR 0xA1, CHR 0xC2, CHR 0xA8] @
     '' EMERGENCY: Immediate medical attention required''"

definition create_summary ::
  "(string \<Rightarrow> string) \<Rightarrow> string list \<Rightarrow> string \<Rightarrow> emergency_check \<Rightarrow> string" where
  "create_summary capitalize conditions severity emergency =
     (if is_emergency emergency then emergency_summary_text
      else if conditions = []
      then ''Symptoms analyzed but no specific conditions identified. '' @
           ''Consider consulting a healthcare provider.''
      else
        (let condition_text =
               (case conditions of
                  [only] \<Rightarrow> only
                | _ \<Rightarrow> str_join '', '' (butlast conditions) @ '' and '' @ last conditions);
             severity_text = capitalize severity
         in ''Analysis suggests possible '' @ condition_text @ '' with '' @ severity_text @
            '' symptoms''))"

section \<open>The analysis\<close>

record analysis_result =
  ar_summary :: string
  ar_possible_conditions :: "string list"
  ar_recommended_actions :: "string list"
  ar_emergency_warnings :: "string list"
  ar_self_care_tips :: "string list"
  ar_when_to_seek_care :: "string list"
  ar_confidence_level :: string
  ar_risk_assessment :: string
  ar_follow_up_recommendations :: "string list"

text \<open>
  \<open>analyze_symptoms\<close>. The value of \<open>_analyze_symptom_patterns\<close> is computed and never
  read, and nothing in the body raises on strings and an integer, so the function is
  total.
\<close>

definition analyze_symptoms ::
  "(string \<Rightarrow> string) \<Rightarrow> (string \<Rightarrow> string) \<Rightarrow> (string \<Rightarrow> string list) \<Rightarrow>
   (string \<Rightarrow> string list) \<Rightarrow> (string list \<Rightarrow> string list) \<Rightarrow>
   int \<Rightarrow> string \<Rightarrow> string \<Rightarrow> string \<Rightarrow> string \<Rightarrow> analysis_result" where
  "analyze_symptoms lower capitalize split words list_set age gender symptoms duration severity =
     (let normalized_symptoms = normalize_symptoms lower words (lower symptoms);
          emergency = check_emergency_symptoms lower symptoms;
          possible_conditions = identify_conditions normalized_symptoms age gender;
          recs = generate_recommendations list_set possible_conditions severity duration
                   emergency;
          summary = create_summary capitalize possible_conditions severity emergency
      in \<lparr>ar_summary = summary,
          ar_possible_conditions = possible_conditions,
          ar_recommended_actions = actions recs,
          ar_emergency_warnings = emergency_warnings recs,
          ar_self_care_tips = self_care recs,
          ar_when_to_seek_care = when_to_seek_care recs,
          ar_confidence_level = calculate_confidence split possible_conditions symptoms,
          ar_risk_assessment = assess_risk age severity emergency,
          ar_follow_up_recommendations = follow_up recs\<rparr>)"

section \<open>Reference queries\<close>

definition get_common_symptoms :: "(string list \<Rightarrow> string list) \<Rightarrow> string list" where
  "get_common_symptoms list_set =
     sort (list_set (fold (\<lambda>category_data all_symptoms. all_symptoms @ kc_symptoms category_data)
                       medical_knowledge []))"

text \<open>
  The two shapes of dictionary that \<open>search_conditions\<close> builds: one with the keys
  \<open>name\<close>, \<open>symptoms\<close>, \<open>severity\<close> and one with \<open>name\<close>, \<open>category\<close>, \<open>symptoms\<close>.
\<close>

datatype search_result =
    Profile_Entry (sr_name: string) (sr_symptoms: "string list") (sr_severity: string)
  | Category_Entry (sr_name: string) (sr_category: string) (sr_symptoms: "string list")

text \<open>The test \<open>query_lower in name.lower()\<close> of both loops.\<close>

definition name_matches :: "(string \<Rightarrow> string) \<Rightarrow> string \<Rightarrow> string \<Rightarrow> bool" where
  "name_matches lower query name = str_in (lower query) (lower name)"

definition profile_results :: "(string \<Rightarrow> string) \<Rightarrow> string \<Rightarrow> search_result list" where
  "profile_results lower query =
     map (\<lambda>(condition_name, condition_data).
            Profile_Entry condition_name (cp_symptoms condition_data)
              (cp_severity condition_data))
       (filter (\<lambda>(condition_name, condition_data). name_matches lower query condition_name)
          condition_database)"

definition category_results ::
  "(string \<Rightarrow> string) \<Rightarrow> string \<Rightarrow> knowledge_category \<Rightarrow> search_result list" where
  "category_results lower query data =
     map (\<lambda>condition. Category_Entry condition (kc_category data) (kc_symptoms data))
       (filter (name_matches lower query) (kc_conditions data))"

text \<open>The list \<open>results\<close> before the slice.\<close>

definition search_results :: "(string \<Rightarrow> string) \<Rightarrow> string \<Rightarrow> search_result list" where
  "search_results lower query =
     profile_results lower query @
     concat (map (category_results lower query) medical_knowledge)"

definition search_conditions :: "(string \<Rightarrow> string) \<Rightarrow> string \<Rightarrow> search_result list" where
  "search_conditions lower query = take 10 (search_results lower query)"

section \<open>Properties\<close>

subsection \<open>Strings\<close>

lemma str_in_sublist: "str_in p s \<longleftrightarrow> sublist p s"
  by (induction s) (simp_all add: sublist_Cons_right)

subsection \<open>Emergency classification\<close>

lemma fold_critical_step:
  "fold (critical_step t) ps (found, level, signs) =
     (found \<or> filter (\<lambda>p. sublist p t) ps \<noteq> [],
      (if filter (\<lambda>p. sublist p t) ps \<noteq> [] then ''critical'' else level),
      signs @ map (\<lambda>p. ''Critical: '' @ p) (filter (\<lambda>p. sublist p t) ps))"
  by (induction ps arbitrary: found level signs) (simp_all add: str_in_sublist)

lemma fold_urgent_step:
  "fold (urgent_step t) ps (found, level, signs) =
     (found \<or> filter (\<lambda>p. sublist p t) ps \<noteq> [],
      (if filter (\<lambda>p. sublist p t) ps \<noteq> [] then ''urgent'' else level),
      signs @ map (\<lambda>p. ''Urgent: '' @ p) (filter (\<lambda>p. sublist p t) ps))"
  by (induction ps arbitrary: found level signs) (simp_all add: str_in_sublist)

lemma fold_warning_step:
  "fold (warning_step t) ps (found, level, signs) =
     (found, level, signs @ map (\<lambda>p. ''Warning: '' @ p) (filter (\<lambda>p. sublist p t) ps))"
  by (induction ps arbitrary: found level signs) (simp_all add: str_in_sublist)

lemma emergency_scan_eq:
  "emergency_scan lower s =
     (tier_matches lower critical_keywords s \<noteq> [] \<or> tier_matches lower urgent_keywords s \<noteq> [],
      (if tier_matches lower critical_keywords s \<noteq> [] then ''critical''
       else if tier_matches lower urgent_keywords s \<noteq> [] then ''urgent'' else ''low''),
      map (\<lambda>p. ''Critical: '' @ p) (tier_matches lower critical_keywords s) @
      (if tier_matches lower critical_keywords s = []
       then map (\<lambda>p. ''Urgent: '' @ p) (tier_matches lower urgent_keywords s) else []) @
      map (\<lambda>p. ''Warning: '' @ p) (tier_matches lower warning_keywords s))"
  by (simp add: emergency_scan_def Let_def tier_matches_def fold_critical_step
      fold_urgent_step fold_warning_step)

text \<open>
  C1. Whatever \<open>str.lower()\<close> does to the text: whenever a critical-tier phrase
  occurs in the lower-cased text as a substring, \<open>check_emergency_symptoms\<close> reports
  urgency \<open>critical\<close> and an emergency. The urgent tier is scanned only when no critical
  phrase matched: then a match makes the urgency \<open>urgent\<close>, and otherwise the urgent
  tier adds nothing. Warning-tier matches are collected in every case. \<open>warning_signs\<close>
  holds the entries \<open><Tier>: <phrase>\<close> of the scanned tiers, critical first, then
  urgent, then warning, each tier in its declared order.
\<close>

theorem check_emergency_tiers:
  "(tier_matches lower critical_keywords s \<noteq> [] \<longrightarrow>
      urgency_level (check_emergency_symptoms lower s) = ''critical'' \<and>
      is_emergency (check_emergency_symptoms lower s)) \<and>
   urgency_level (check_emergency_symptoms lower s) =
     (if tier_matches lower critical_keywords s \<noteq> [] then ''critical''
      else if tier_matches lower urgent_keywords s \<noteq> [] then ''urgent'' else ''low'') \<and>
   is_emergency (check_emergency_symptoms lower s) =
     (tier_matches lower critical_keywords s \<noteq> [] \<or>
      tier_matches lower urgent_keywords s \<noteq> []) \<and>
   warning_signs (check_emergency_symptoms lower s) =
     map (\<lambda>p. ''Critical: '' @ p) (tier_matches lower critical_keywords s) @
     (if tier_matches lower critical_keywords s = []
      then map (\<lambda>p. ''Urgent: '' @ p) (tier_matches lower urgent_keywords s) else []) @
     map (\<lambda>p. ''Warning: '' @ p) (tier_matches lower warning_keywords s)"
  by (simp add: check_emergency_symptoms_def emergency_scan_eq)

theorem check_emergency_tiers_witness:
  "tier_matches ascii_lower critical_keywords
     ''Severe CHEST PAIN, high fever and a persistent cough'' \<noteq> []
   \<and> urgency_level
        (check_emergency_symptoms ascii_lower
           ''Severe CHEST PAIN, high fever and a persistent cough'') = ''critical''
   \<and> is_emergency
        (check_emergency_symptoms ascii_lower
           ''Severe CHEST PAIN, high fever and a persistent cough'')
   \<and> warning_signs
        (check_emergency_symptoms ascii_lower
           ''Severe CHEST PAIN, high fever and a persistent cough'') =
       [''Critical: chest pain'', ''Warning: persistent cough'']"
proof -
  have c: "tier_matches ascii_lower critical_keywords
             ''Severe CHEST PAIN, high fever and a persistent cough'' = [''chest pain'']"
    by code_simp
  have u: "tier_matches ascii_lower urgent_keywords
             ''Severe CHEST PAIN, high fever and a persistent cough'' = [''high fever'']"
    by code_simp
  have w: "tier_matches ascii_lower warning_keywords
             ''Severe CHEST PAIN, high fever and a persistent cough'' = [''persistent cough'']"
    by code_simp
  show ?thesis
    using check_emergency_tiers
      [of ascii_lower "''Severe CHEST PAIN, high fever and a persistent cough''"]
    by (simp add: c u w)
qed

subsection \<open>Risk label\<close>

lemma risk_points_range: "0 \<le> risk_points age severity \<and> risk_points age severity \<le> 3"
  by (simp add: risk_points_def)

lemma assess_risk_points:
  "\<not> is_emergency e \<Longrightarrow>
   assess_risk age severity e =
     (if risk_points age severity \<ge> 3 then ''High''
      else if risk_points age severity \<ge> 1 then ''Medium'' else ''Low'')"
  by (simp add: assess_risk_def risk_points_def Let_def)

text \<open>
  C5. \<open>_assess_risk\<close> returns \<open>Critical\<close> exactly when the emergency result says
  \<open>is_emergency\<close>. Otherwise, with the risk points \<open>p\<close> (1 for an age below 5 or above
  65, plus 2 for severity \<open>severe\<close> or 1 for \<open>moderate\<close>), which lie between 0 and 3,
  it returns \<open>High\<close> when \<open>p \<ge> 3\<close>, \<open>Medium\<close> when \<open>1 \<le> p < 3\<close> and \<open>Low\<close> when
  \<open>p = 0\<close>.
\<close>

theorem assess_risk_label:
  "(assess_risk age severity e = ''Critical'' \<longleftrightarrow> is_emergency e) \<and>
   (\<not> is_emergency e \<longrightarrow>
      0 \<le> risk_points age severity \<and> risk_points age severity \<le> 3 \<and>
      (risk_points age severity \<ge> 3 \<longrightarrow> assess_risk age severity e = ''High'') \<and>
      (1 \<le> risk_points age severity \<and> risk_points age severity < 3 \<longrightarrow>
         assess_risk age severity e = ''Medium'') \<and>
      (risk_points age severity = 0 \<longrightarrow> assess_risk age severity e = ''Low''))"
proof (cases "is_emergency e")
  case True
  then show ?thesis by (simp add: assess_risk_def)
next
  case False
  have "assess_risk age severity e \<noteq> ''Critical''"
    by (simp add: assess_risk_points [OF False])
  with False show ?thesis
    using risk_points_range [of age severity]
    by (simp add: assess_risk_points [OF False])
qed

theorem assess_risk_label_witness:
  "\<not> is_emergency \<lparr>is_emergency = False, urgency_level = ''low'', warning_signs = [],
        recommendation = ''Monitor symptoms and seek care if they worsen''\<rparr> \<and>
   risk_points 70 ''severe'' = 3 \<and>
   assess_risk 70 ''severe'' \<lparr>is_emergency = False, urgency_level = ''low'', warning_signs = [],
        recommendation = ''Monitor symptoms and seek care if they worsen''\<rparr> = ''High''"
proof -
  have p: "risk_points 70 ''severe'' = 3"
    by (simp add: risk_points_def)
  show ?thesis
    using assess_risk_label [of 70 "''severe''"
        "\<lparr>is_emergency = False, urgency_level = ''low'', warning_signs = [],
          recommendation = ''Monitor symptoms and seek care if they worsen''\<rparr>"]
    by (simp add: p)
qed

subsection \<open>Confidence label\<close>

text \<open>
  C6. Whatever \<open>str.split()\<close> yields on the raw text, with the number of its words as
  the word count: \<open>_calculate_confidence\<close> returns \<open>Low\<close> whenever the condition list
  is empty, whatever the word count. Otherwise it returns \<open>High\<close> if the raw text has
  more than 20 whitespace-separated words and there are at most 2 conditions, \<open>Medium\<close>
  if it has more than 10 words and there are at most 3 conditions, and \<open>Low\<close> in every
  other case.
\<close>

theorem calculate_confidence_label:
  "(conditions = [] \<longrightarrow> calculate_confidence split conditions symptoms = ''Low'') \<and>
   (conditions \<noteq> [] \<longrightarrow>
      calculate_confidence split conditions symptoms =
        (if length (split symptoms) > 20 \<and> length conditions \<le> 2 then ''High''
         else if length (split symptoms) > 10 \<and> length conditions \<le> 3 then ''Medium''
         else ''Low''))"
  by (simp add: calculate_confidence_def Let_def)

theorem calculate_confidence_label_witness:
  "[''Migraine'', ''Tension Headache'', ''Cluster Headache''] \<noteq> [] \<and>
   length (ascii_split
     ''a bad  headache since monday morning and it gets worse when i move'') = 13 \<and>
   calculate_confidence ascii_split [''Migraine'', ''Tension Headache'', ''Cluster Headache'']
     ''a bad  headache since monday morning and it gets worse when i move'' = ''Medium''"
proof -
  have n: "length (ascii_split
             ''a bad  headache since monday morning and it gets worse when i move'') = 13"
    by code_simp
  show ?thesis
    using calculate_confidence_label
      [of "[''Migraine'', ''Tension Headache'', ''Cluster Headache'']" ascii_split
        "''a bad  headache since monday morning and it gets worse when i move''"]
    by (simp add: n)
qed

subsection \<open>Condition scores\<close>

lemma fold_partial_step:
  "fold (partial_step s) known score =
     score + of_nat (length (filter (\<lambda>k. sublist s k \<or> sublist k s) known)) / 2"
  by (induction known arbitrary: score)
    (simp_all add: partial_step_def str_in_sublist add_divide_distrib)

lemma symptom_step_points: "symptom_step known s score = score + phrase_points known s"
  by (simp add: symptom_step_def phrase_points_def fold_partial_step)

lemma fold_symptom_step:
  "fold (symptom_step known) ss score = score + sum_list (map (phrase_points known) ss)"
  by (induction ss arbitrary: score) (simp_all add: symptom_step_points)

lemma condition_score_points:
  "condition_score data ss = sum_list (map (phrase_points (kc_symptoms data)) ss)"
  by (simp add: condition_score_def fold_symptom_step)

lemma exact_match_points:
  assumes "s \<in> set known"
  shows "phrase_points known s \<ge> 3 / 2"
proof -
  have "filter (\<lambda>k. sublist s k \<or> sublist k s) known \<noteq> []"
    using assms by (auto simp: filter_empty_conv)
  then have "length (filter (\<lambda>k. sublist s k \<or> sublist k s) known) \<ge> 1"
    by (simp add: Suc_le_eq)
  then have "(of_nat (length (filter (\<lambda>k. sublist s k \<or> sublist k s) known)) :: rat) \<ge> 1"
    using of_nat_mono by fastforce
  with assms show ?thesis by (simp add: phrase_points_def)
qed

text \<open>
  C3. The score of a (category, condition) pair is the sum, over the normalized
  phrases, of the points of each phrase: 1 if the phrase equals a known symptom phrase
  of the category, plus 0.5 for every known phrase of the category that is a substring
  of the phrase or has the phrase as a substring, each known phrase counted on its own.
  A phrase that equals a known phrase therefore brings at least 1.5.
\<close>

theorem condition_score_sum:
  "condition_score data symptoms =
     sum_list (map (phrase_points (kc_symptoms data)) symptoms) \<and>
   (\<forall>s. s \<in> set (kc_symptoms data) \<longrightarrow> phrase_points (kc_symptoms data) s \<ge> 3 / 2)"
proof (intro conjI allI impI)
  show "condition_score data symptoms =
          sum_list (map (phrase_points (kc_symptoms data)) symptoms)"
    by (rule condition_score_points)
next
  fix s
  assume "s \<in> set (kc_symptoms data)"
  then show "phrase_points (kc_symptoms data) s \<ge> 3 / 2"
    by (rule exact_match_points)
qed

theorem condition_score_sum_witness:
  "''cough'' \<in> set (kc_symptoms (hd medical_knowledge)) \<and>
   phrase_points (kc_symptoms (hd medical_knowledge)) ''cough'' = 3 / 2 \<and>
   phrase_points (kc_symptoms (hd medical_knowledge)) ''runny nose congestion sore throat'' =
     3 / 2 \<and>
   condition_score (hd medical_knowledge) [''cough'', ''runny nose congestion sore throat''] = 3"
proof -
  have a: "''cough'' \<in> set (kc_symptoms (hd medical_knowledge))"
    by code_simp
  have b: "phrase_points (kc_symptoms (hd medical_knowledge)) ''cough'' = 3 / 2"
    by code_simp
  have c: "phrase_points (kc_symptoms (hd medical_knowledge))
             ''runny nose congestion sore throat'' = 3 / 2"
    by code_simp
  show ?thesis
    using condition_score_sum
      [of "hd medical_knowledge" "[''cough'', ''runny nose congestion sore throat'']"]
    by (simp add: a b c)
qed

subsection \<open>Ranking\<close>

lemma dict_set_fresh: "k \<notin> fst ` set d \<Longrightarrow> dict_set d k v = d @ [(k, v)]"
  by (induction d) auto

lemma fold_condition_step:
  "distinct cs \<Longrightarrow> set cs \<inter> fst ` set acc = {} \<Longrightarrow>
   fold (condition_step data ss) cs acc =
     acc @ filter (\<lambda>p. snd p > 0) (map (\<lambda>c. (c, condition_score data ss)) cs)"
proof (induction cs arbitrary: acc)
  case Nil
  then show ?case by simp
next
  case (Cons c cs)
  show ?case
  proof (cases "condition_score data ss > 0")
    case True
    have fresh: "c \<notin> fst ` set acc" using Cons.prems by auto
    have step: "condition_step data ss c acc = acc @ [(c, condition_score data ss)]"
      using True by (simp add: condition_step_def dict_set_fresh [OF fresh])
    have "set cs \<inter> fst ` set (acc @ [(c, condition_score data ss)]) = {}"
      using Cons.prems by auto
    with Cons.IH [of "acc @ [(c, condition_score data ss)]"] Cons.prems True step
    show ?thesis by simp
  next
    case False
    then have step: "condition_step data ss c acc = acc"
      by (simp add: condition_step_def)
    have "set cs \<inter> fst ` set acc = {}" using Cons.prems by auto
    with Cons.IH [of acc] Cons.prems False step show ?thesis by simp
  qed
qed

lemma fold_score_categories:
  "distinct (concat (map kc_conditions kb)) \<Longrightarrow>
   set (concat (map kc_conditions kb)) \<inter> fst ` set acc = {} \<Longrightarrow>
   fold (\<lambda>data. fold (condition_step data ss) (kc_conditions data)) kb acc =
     acc @ filter (\<lambda>p. snd p > 0) (scored_pairs kb ss)"
proof (induction kb arbitrary: acc)
  case Nil
  then show ?case by (simp add: scored_pairs_def)
next
  case (Cons d kb)
  let ?new = "filter (\<lambda>p. snd p > 0) (map (\<lambda>c. (c, condition_score d ss)) (kc_conditions d))"
  have d1: "distinct (kc_conditions d)" and d2: "distinct (concat (map kc_conditions kb))"
    and d3: "set (kc_conditions d) \<inter> set (concat (map kc_conditions kb)) = {}"
    using Cons.prems(1) by auto
  have a1: "set (kc_conditions d) \<inter> fst ` set acc = {}"
    and a2: "set (concat (map kc_conditions kb)) \<inter> fst ` set acc = {}"
    using Cons.prems(2) by auto
  have inner: "fold (condition_step d ss) (kc_conditions d) acc = acc @ ?new"
    by (rule fold_condition_step [OF d1 a1])
  have "fst ` set ?new \<subseteq> set (kc_conditions d)" by auto
  with d3 have "set (concat (map kc_conditions kb)) \<inter> fst ` set ?new = {}"
    by blast
  with a2 have "set (concat (map kc_conditions kb)) \<inter> fst ` set (acc @ ?new) = {}"
    by (simp add: image_Un Int_Un_distrib)
  from Cons.IH [OF d2 this] inner show ?case
    by (simp add: scored_pairs_def)
qed

lemma distinct_condition_names: "distinct (concat (map kc_conditions medical_knowledge))"
  by code_simp

lemma score_conditions_eq:
  "score_conditions medical_knowledge ss =
     filter (\<lambda>p. snd p > 0) (scored_pairs medical_knowledge ss)"
  using fold_score_categories [OF distinct_condition_names, of "[]" ss]
  by (simp add: score_conditions_def)

lemma sorted_rev_uminus:
  fixes l :: "rat list"
  shows "sorted l \<Longrightarrow> sorted (rev (map uminus l))"
  by (induction l) (auto simp: sorted_append)

lemma sorted_reverse_eq: "sorted_reverse f xs = sort_key (\<lambda>x. - f x) xs"
proof (rule properties_for_sort_key [symmetric])
  show "mset (sorted_reverse f xs) = mset xs"
    by (simp add: sorted_reverse_def)
next
  fix k
  have "filter (\<lambda>x. f x = f k) (sort_key f (rev xs)) = filter (\<lambda>x. f x = f k) (rev xs)"
    by (rule sort_key_stable)
  then have "filter (\<lambda>x. f x = f k) (sorted_reverse f xs) = filter (\<lambda>x. f x = f k) xs"
    by (simp add: sorted_reverse_def rev_filter [symmetric])
  moreover have "(\<lambda>x. - f k = - f x) = (\<lambda>x. f x = f k)" by auto
  ultimately show "filter (\<lambda>x. - f k = - f x) (sorted_reverse f xs) = filter (\<lambda>x. - f k = - f x) xs"
    by simp
next
  have "sorted (map f (sort_key f (rev xs)))" by simp
  then have "sorted (rev (map uminus (map f (sort_key f (rev xs)))))"
    by (rule sorted_rev_uminus)
  then show "sorted (map (\<lambda>x. - f x) (sorted_reverse f xs))"
    by (simp add: sorted_reverse_def rev_map comp_def)
qed

lemma ranked_conditions_eq:
  "ranked_conditions ss =
     sort_key (\<lambda>p. - snd p) (filter (\<lambda>p. snd p \<ge> 1) (scored_pairs medical_knowledge ss))"
proof -
  have "(\<lambda>p::string \<times> rat. 0 < snd p \<and> 1 \<le> snd p) = (\<lambda>p. 1 \<le> snd p)"
    by auto
  then show ?thesis
    by (simp add: ranked_conditions_def score_conditions_eq sorted_reverse_eq filter_sort
        case_prod_unfold)
qed

lemma ranked_conditions_sorted: "sorted_wrt (\<lambda>p q. snd p \<ge> snd q) (ranked_conditions ss)"
proof -
  have "sorted (map (\<lambda>p. - snd p) (ranked_conditions ss))"
    unfolding ranked_conditions_eq by (rule sorted_sort_key)
  then show ?thesis by (simp add: sorted_map)
qed

lemma ranked_conditions_stable:
  "filter (\<lambda>p. snd p = k) (ranked_conditions ss) =
     filter (\<lambda>p. snd p = k) (filter (\<lambda>p. snd p \<ge> 1) (scored_pairs medical_knowledge ss))"
proof -
  have "(\<lambda>p::string \<times> rat. snd p = k) = (\<lambda>p. - snd p = - k)" by auto
  then show ?thesis
    unfolding ranked_conditions_eq by (simp only: sort_key_stable)
qed

text \<open>
  C2. \<open>_identify_conditions\<close> keeps exactly the (condition, score) pairs with a score
  of at least 1 (so every pair with score 0, or 0.5, is dropped), orders them by
  descending score, pairs of equal score staying in the declaration order of the
  knowledge base, and returns the names of the first five. Its result, and so the list
  of possible conditions of \<open>analyze_symptoms\<close> (whatever the string methods and the
  set conversion do), has at most five entries.
\<close>

theorem identify_conditions_ranking:
  "identify_conditions ss age gender = take 5 (map fst (ranked_conditions ss)) \<and>
   mset (ranked_conditions ss) =
     mset (filter (\<lambda>p. snd p \<ge> 1) (scored_pairs medical_knowledge ss)) \<and>
   sorted_wrt (\<lambda>p q. snd p \<ge> snd q) (ranked_conditions ss) \<and>
   (\<forall>k. filter (\<lambda>p. snd p = k) (ranked_conditions ss) =
        filter (\<lambda>p. snd p = k)
          (filter (\<lambda>p. snd p \<ge> 1) (scored_pairs medical_knowledge ss))) \<and>
   length (identify_conditions ss age gender) \<le> 5 \<and>
   length (ar_possible_conditions
             (analyze_symptoms lower capitalize split words list_set age gender symptoms
                duration severity)) \<le> 5"
proof (intro conjI allI)
  show "identify_conditions ss age gender = take 5 (map fst (ranked_conditions ss))"
    by (simp add: identify_conditions_def)
  show "mset (ranked_conditions ss) =
          mset (filter (\<lambda>p. snd p \<ge> 1) (scored_pairs medical_knowledge ss))"
    by (simp add: ranked_conditions_eq)
  show "sorted_wrt (\<lambda>p q. snd p \<ge> snd q) (ranked_conditions ss)"
    by (rule ranked_conditions_sorted)
  show "filter (\<lambda>p. snd p = k) (ranked_conditions ss) =
          filter (\<lambda>p. snd p = k)
            (filter (\<lambda>p. snd p \<ge> 1) (scored_pairs medical_knowledge ss))" for k
    by (rule ranked_conditions_stable)
  show "length (identify_conditions ss age gender) \<le> 5"
    by (simp add: identify_conditions_def)
  show "length (ar_possible_conditions
                  (analyze_symptoms lower capitalize split words list_set age gender symptoms
                     duration severity)) \<le> 5"
    by (simp add: analyze_symptoms_def Let_def identify_conditions_def)
qed

theorem identify_conditions_ranking_witness:
  "ranked_conditions [''headache'', ''nausea'', ''pain''] =
     [(''Migraine'', 3), (''Tension Headache'', 3), (''Cluster Headache'', 3),
      (''Concussion'', 3), (''Food Poisoning'', 2), (''Gastritis'', 2),
      (''Gastroenteritis'', 2), (''Irritable Bowel Syndrome'', 2),
      (''Sprain'', 3 / 2), (''Strain'', 3 / 2), (''Arthritis'', 3 / 2),
      (''Fracture'', 3 / 2), (''Muscle Pain'', 3 / 2)] \<and>
   identify_conditions [''headache'', ''nausea'', ''pain''] 30 ''male'' =
     [''Migraine'', ''Tension Headache'', ''Cluster Headache'', ''Concussion'',
      ''Food Poisoning'']"
proof -
  have r: "ranked_conditions [''headache'', ''nausea'', ''pain''] =
     [(''Migraine'', 3), (''Tension Headache'', 3), (''Cluster Headache'', 3),
      (''Concussion'', 3), (''Food Poisoning'', 2), (''Gastritis'', 2),
      (''Gastroenteritis'', 2), (''Irritable Bowel Syndrome'', 2),
      (''Sprain'', 3 / 2), (''Strain'', 3 / 2), (''Arthritis'', 3 / 2),
      (''Fracture'', 3 / 2), (''Muscle Pain'', 3 / 2)]"
    by code_simp
  show ?thesis
    using identify_conditions_ranking [of "[''headache'', ''nausea'', ''pain'']" 30 "''male''"]
    by (simp add: r)
qed

subsection \<open>Conditions of one category\<close>

lemma fst_scored_pairs: "map fst (scored_pairs kb ss) = concat (map kc_conditions kb)"
  by (induction kb) (simp_all add: scored_pairs_def comp_def)

lemma scored_pairs_Cons:
  "scored_pairs (d # kb) ss =
     map (\<lambda>c. (c, condition_score d ss)) (kc_conditions d) @ scored_pairs kb ss"
  by (simp add: scored_pairs_def)

lemma filter_category_pairs:
  "distinct (concat (map kc_conditions kb)) \<Longrightarrow> data \<in> set kb \<Longrightarrow>
   filter (\<lambda>p. fst p \<in> set (kc_conditions data)) (scored_pairs kb ss) =
     map (\<lambda>c. (c, condition_score data ss)) (kc_conditions data)"
proof (induction kb)
  case Nil
  then show ?case by simp
next
  case (Cons d kb)
  have d2: "distinct (concat (map kc_conditions kb))"
    and d3: "set (kc_conditions d) \<inter> set (concat (map kc_conditions kb)) = {}"
    using Cons.prems(1) by auto
  have names: "fst ` set (scored_pairs kb ss) = set (concat (map kc_conditions kb))"
    using fst_scored_pairs [of kb ss] by (metis set_map)
  show ?case
  proof (cases "data \<in> set kb")
    case True
    then have sub: "set (kc_conditions data) \<subseteq> set (concat (map kc_conditions kb))"
      by auto
    with d3 have "filter (\<lambda>p. fst p \<in> set (kc_conditions data))
                    (map (\<lambda>c. (c, condition_score d ss)) (kc_conditions d)) = []"
      by (auto simp: filter_empty_conv)
    with Cons.IH [OF d2 True] show ?thesis
      by (simp add: scored_pairs_Cons)
  next
    case False
    with Cons.prems(2) have eq: "d = data" by simp
    have own: "filter (\<lambda>p. fst p \<in> set (kc_conditions data))
                 (map (\<lambda>c. (c, condition_score data ss)) (kc_conditions data)) =
               map (\<lambda>c. (c, condition_score data ss)) (kc_conditions data)"
      by (simp add: filter_id_conv)
    have "fst p \<in> set (concat (map kc_conditions kb))" if "p \<in> set (scored_pairs kb ss)" for p
      using that names by blast
    with d3 have "filter (\<lambda>p. fst p \<in> set (kc_conditions data)) (scored_pairs kb ss) = []"
      unfolding eq filter_empty_conv by blast
    with own show ?thesis
      by (simp add: scored_pairs_Cons eq)
  qed
qed

lemma map_of_scored_pairs:
  assumes "distinct (concat (map kc_conditions kb))" "data \<in> set kb"
    "c \<in> set (kc_conditions data)"
  shows "map_of (scored_pairs kb ss) c = Some (condition_score data ss)"
proof (rule map_of_is_SomeI)
  show "distinct (map fst (scored_pairs kb ss))"
    using assms(1) by (simp add: fst_scored_pairs)
  show "(c, condition_score data ss) \<in> set (scored_pairs kb ss)"
    using assms(2,3) by (auto simp: scored_pairs_def)
qed

lemma map_of_filter_distinct:
  "distinct (map fst xs) \<Longrightarrow> map_of xs k = Some v \<Longrightarrow>
   map_of (filter P xs) k = (if P (k, v) then Some v else None)"
proof (induction xs)
  case Nil
  then show ?case by simp
next
  case (Cons x xs)
  show ?case
  proof (cases "fst x = k")
    case True
    with Cons.prems have v: "snd x = v" and "k \<notin> fst ` set xs" by auto
    then have "map_of (filter P xs) k = None"
      by (auto simp: map_of_eq_None_iff)
    with True v show ?thesis by (cases x) auto
  next
    case False
    with Cons show ?thesis by (cases x) auto
  qed
qed

lemma sort_key_constant:
  fixes v :: rat
  shows "sort_key (\<lambda>p. - snd p) (map (\<lambda>c. (c, v)) cs) = map (\<lambda>c. (c, v)) cs"
  by (rule sort_key_id_if_sorted) (induction cs, simp_all)

lemma ranked_category:
  assumes "data \<in> set medical_knowledge"
  shows "filter (\<lambda>p. fst p \<in> set (kc_conditions data)) (ranked_conditions ss) =
     (if condition_score data ss \<ge> 1
      then map (\<lambda>c. (c, condition_score data ss)) (kc_conditions data) else [])"
proof -
  let ?P = "\<lambda>p::string \<times> rat. fst p \<in> set (kc_conditions data)"
  let ?Q = "\<lambda>p::string \<times> rat. snd p \<ge> 1"
  let ?own = "map (\<lambda>c. (c, condition_score data ss)) (kc_conditions data)"
  have "filter ?P (filter ?Q (scored_pairs medical_knowledge ss)) =
        filter ?Q (filter ?P (scored_pairs medical_knowledge ss))"
    by (simp add: conj_commute)
  also have "\<dots> = filter ?Q ?own"
    by (simp only: filter_category_pairs [OF distinct_condition_names assms])
  also have "\<dots> = (if condition_score data ss \<ge> 1 then ?own else [])"
    by (simp add: filter_empty_conv filter_id_conv)
  finally have kept: "filter ?P (filter ?Q (scored_pairs medical_knowledge ss)) =
                      (if condition_score data ss \<ge> 1 then ?own else [])" .
  have "filter ?P (ranked_conditions ss) =
        sort_key (\<lambda>p. - snd p) (filter ?P (filter ?Q (scored_pairs medical_knowledge ss)))"
    unfolding ranked_conditions_eq by (rule filter_sort)
  then have "filter ?P (ranked_conditions ss) =
        sort_key (\<lambda>p. - snd p) (if condition_score data ss \<ge> 1 then ?own else [])"
    by (simp only: kept)
  then show ?thesis
    by (simp add: sort_key_constant)
qed

text \<open>
  C9. Two conditions declared in the same category of the knowledge base receive the
  same score, whatever the phrases: the score is computed from the symptom list of the
  category alone. Both are therefore stored in the score dictionary with one value, or
  both are absent from it. In the ranking the conditions of one category appear all
  together or not at all, in their declaration order, and what the result (the first
  five names) holds of a category is an initial segment of its condition list.
\<close>

theorem same_category_same_score:
  assumes "data \<in> set medical_knowledge"
    and "c1 \<in> set (kc_conditions data)" and "c2 \<in> set (kc_conditions data)"
  shows "map_of (scored_pairs medical_knowledge ss) c1 = Some (condition_score data ss) \<and>
         map_of (scored_pairs medical_knowledge ss) c2 = Some (condition_score data ss) \<and>
         map_of (score_conditions medical_knowledge ss) c1 =
           map_of (score_conditions medical_knowledge ss) c2 \<and>
         map fst (filter (\<lambda>p. fst p \<in> set (kc_conditions data)) (ranked_conditions ss)) =
           (if condition_score data ss \<ge> 1 then kc_conditions data else []) \<and>
         prefix (filter (\<lambda>c. c \<in> set (kc_conditions data)) (identify_conditions ss age gender))
           (kc_conditions data)"
proof -
  note dn = distinct_condition_names
  have s1: "map_of (scored_pairs medical_knowledge ss) c1 = Some (condition_score data ss)"
    by (rule map_of_scored_pairs [OF dn assms(1,2)])
  have s2: "map_of (scored_pairs medical_knowledge ss) c2 = Some (condition_score data ss)"
    by (rule map_of_scored_pairs [OF dn assms(1,3)])
  have dk: "distinct (map fst (scored_pairs medical_knowledge ss))"
    using dn by (simp add: fst_scored_pairs)
  have s3: "map_of (score_conditions medical_knowledge ss) c1 =
            map_of (score_conditions medical_knowledge ss) c2"
    unfolding score_conditions_eq
    by (simp add: map_of_filter_distinct [OF dk s1] map_of_filter_distinct [OF dk s2])
  have s4: "map fst (filter (\<lambda>p. fst p \<in> set (kc_conditions data)) (ranked_conditions ss)) =
            (if condition_score data ss \<ge> 1 then kc_conditions data else [])"
    by (simp add: ranked_category [OF assms(1)] comp_def)
  have "prefix (take 5 (map fst (ranked_conditions ss))) (map fst (ranked_conditions ss))"
    by (rule take_is_prefix)
  then have "prefix (filter (\<lambda>c. c \<in> set (kc_conditions data)) (identify_conditions ss age gender))
               (filter (\<lambda>c. c \<in> set (kc_conditions data)) (map fst (ranked_conditions ss)))"
    unfolding identify_conditions_def by (rule filter_mono_prefix)
  moreover have "filter (\<lambda>c. c \<in> set (kc_conditions data)) (map fst (ranked_conditions ss)) =
                 map fst (filter (\<lambda>p. fst p \<in> set (kc_conditions data)) (ranked_conditions ss))"
    by (simp add: filter_map comp_def)
  ultimately have s5: "prefix (filter (\<lambda>c. c \<in> set (kc_conditions data))
                                 (identify_conditions ss age gender)) (kc_conditions data)"
    using s4 by (simp split: if_splits)
  from s1 s2 s3 s4 s5 show ?thesis by blast
qed

theorem same_category_same_score_witness:
  "medical_knowledge ! 2 \<in> set medical_knowledge \<and>
   ''Migraine'' \<in> set (kc_conditions (medical_knowledge ! 2)) \<and>
   ''Concussion'' \<in> set (kc_conditions (medical_knowledge ! 2)) \<and>
   map_of (scored_pairs medical_knowledge [''headache'', ''nausea'', ''pain'']) ''Migraine'' =
     Some 3 \<and>
   map_of (scored_pairs medical_knowledge [''headache'', ''nausea'', ''pain'']) ''Concussion'' =
     Some 3 \<and>
   map_of (score_conditions medical_knowledge [''headache'', ''nausea'', ''pain'']) ''Migraine'' =
     map_of (score_conditions medical_knowledge [''headache'', ''nausea'', ''pain''])
       ''Concussion'' \<and>
   prefix (filter (\<lambda>c. c \<in> set (kc_conditions (medical_knowledge ! 2)))
             (identify_conditions [''headache'', ''nausea'', ''pain''] 30 ''male''))
     (kc_conditions (medical_knowledge ! 2))"
proof -
  have h1: "medical_knowledge ! 2 \<in> set medical_knowledge"
    by code_simp
  have h2: "''Migraine'' \<in> set (kc_conditions (medical_knowledge ! 2))"
    by code_simp
  have h3: "''Concussion'' \<in> set (kc_conditions (medical_knowledge ! 2))"
    by code_simp
  have v: "condition_score (medical_knowledge ! 2) [''headache'', ''nausea'', ''pain''] = 3"
    by code_simp
  show ?thesis
    using same_category_same_score
      [OF h1 h2 h3, of "[''headache'', ''nausea'', ''pain'']" 30 "''male''"] h1 h2 h3
    by (simp add: v)
qed

subsection \<open>Normalization without trigger tokens\<close>

lemma fold_group_step_no_trigger:
  "\<forall>w \<in> set ws. \<not> is_symptom_word lower w \<Longrightarrow>
   fold (group_step lower) ws (groups, cur) = (groups, cur @ ws)"
  by (induction ws arbitrary: cur) simp_all

lemma group_words_no_trigger:
  "\<forall>w \<in> set ws. \<not> is_symptom_word lower w \<Longrightarrow>
   group_words lower ws = (if ws = [] then [] else [str_join '' '' ws])"
  by (simp add: group_words_def fold_group_step_no_trigger)

text \<open>
  After the grouping loop the current group is empty only if there was no token: every
  step leaves a token in it.
\<close>

lemma fold_group_step_current:
  "ws \<noteq> [] \<or> cur \<noteq> [] \<Longrightarrow> snd (fold (group_step lower) ws (groups, cur)) \<noteq> []"
proof (induction ws arbitrary: groups cur)
  case Nil
  then show ?case by simp
next
  case (Cons w ws)
  obtain groups' cur' where step: "group_step lower w (groups, cur) = (groups', cur')"
    by (cases "group_step lower w (groups, cur)")
  then have "cur' \<noteq> []"
    by (auto split: if_splits)
  then have "snd (fold (group_step lower) ws (groups', cur')) \<noteq> []"
    by (intro Cons.IH) simp
  with step show ?case by simp
qed

lemma group_words_empty: "group_words lower ws = [] \<longleftrightarrow> ws = []"
proof (cases "ws = []")
  case True
  then show ?thesis by (simp add: group_words_def)
next
  case False
  then have "snd (fold (group_step lower) ws ([], [])) \<noteq> []"
    by (intro fold_group_step_current) simp
  with False show ?thesis
    by (cases "fold (group_step lower) ws ([], [])") (simp add: group_words_def)
qed

text \<open>
  The alternative \<open>else cleaned_words\<close> of the last line of \<open>_normalize_symptoms\<close> is
  taken only when there is no cleaned token, and then both alternatives are the empty
  list: the result is always the list of groups.
\<close>

lemma normalize_fallback_unused:
  "normalize_symptoms lower words s = group_words lower (cleaned_words lower words s)"
proof (cases "cleaned_words lower words s = []")
  case True
  then show ?thesis
    by (simp add: normalize_symptoms_def Let_def group_words_def)
next
  case False
  then show ?thesis
    by (simp add: normalize_symptoms_def Let_def group_words_empty)
qed

text \<open>
  C4. When no cleaned token is a trigger, \<open>_normalize_symptoms\<close> returns one phrase,
  the cleaned tokens joined by single spaces (or the empty list when there is no cleaned
  token). This is the cleaned token list, one phrase per token, only when there is at
  most one cleaned token: with two or more tokens the code does not do what the claim
  says.
\<close>

theorem normalize_no_trigger:
  assumes "\<forall>w \<in> set (cleaned_words lower words symptoms). \<not> is_symptom_word lower w"
  shows "normalize_symptoms lower words symptoms =
           (if cleaned_words lower words symptoms = [] then []
            else [str_join '' '' (cleaned_words lower words symptoms)]) \<and>
         (normalize_symptoms lower words symptoms = cleaned_words lower words symptoms \<longleftrightarrow>
            length (cleaned_words lower words symptoms) \<le> 1)"
proof -
  let ?cs = "cleaned_words lower words symptoms"
  have r: "normalize_symptoms lower words symptoms =
             (if ?cs = [] then [] else [str_join '' '' ?cs])"
    using assms by (simp add: normalize_fallback_unused group_words_no_trigger)
  have "(if ?cs = [] then [] else [str_join '' '' ?cs]) = ?cs \<longleftrightarrow> length ?cs \<le> 1"
  proof (cases ?cs)
    case Nil
    then show ?thesis by simp
  next
    case (Cons w ws)
    then show ?thesis by (cases ws) simp_all
  qed
  with r show ?thesis by simp
qed

theorem normalize_no_trigger_witness:
  "cleaned_words ascii_lower ascii_words ''runny nose'' = [''runny'', ''nose''] \<and>
   list_all (\<lambda>w. \<not> is_symptom_word ascii_lower w)
     (cleaned_words ascii_lower ascii_words ''runny nose'') \<and>
   normalize_symptoms ascii_lower ascii_words ''runny nose'' = [''runny nose''] \<and>
   normalize_symptoms ascii_lower ascii_words ''runny nose'' \<noteq>
     cleaned_words ascii_lower ascii_words ''runny nose''"
proof -
  have c: "cleaned_words ascii_lower ascii_words ''runny nose'' = [''runny'', ''nose'']"
    by code_simp
  have n: "list_all (\<lambda>w. \<not> is_symptom_word ascii_lower w)
             (cleaned_words ascii_lower ascii_words ''runny nose'')"
    by code_simp
  then have h: "\<forall>w \<in> set (cleaned_words ascii_lower ascii_words ''runny nose'').
                  \<not> is_symptom_word ascii_lower w"
    by (simp only: list_all_iff)
  show ?thesis
    using normalize_no_trigger [OF h] n by (simp add: c)
qed

subsection \<open>Lists converted through a set\<close>

lemma fold_extend: "fold (\<lambda>d acc. acc @ f d) xs acc0 = acc0 @ concat (map f xs)"
  by (induction xs arbitrary: acc0) simp_all

text \<open>
  C7. Whatever order the conversion through a set yields, each of the five lists that
  \<open>_generate_recommendations\<close> returns (\<open>actions\<close>, \<open>emergency_warnings\<close>,
  \<open>self_care\<close>, \<open>when_to_seek_care\<close>, \<open>follow_up\<close>) is free of duplicates, and
  holds the same strings as the list collected by the rules.
\<close>

theorem generate_recommendations_distinct:
  assumes "set_semantics list_set"
  shows "distinct (actions (generate_recommendations list_set conditions severity duration e)) \<and>
         distinct (emergency_warnings
                     (generate_recommendations list_set conditions severity duration e)) \<and>
         distinct (self_care (generate_recommendations list_set conditions severity duration e)) \<and>
         distinct (when_to_seek_care
                     (generate_recommendations list_set conditions severity duration e)) \<and>
         distinct (follow_up (generate_recommendations list_set conditions severity duration e)) \<and>
         set (actions (generate_recommendations list_set conditions severity duration e)) =
           set (actions (collect_recommendations conditions severity duration e)) \<and>
         set (emergency_warnings
                (generate_recommendations list_set conditions severity duration e)) =
           set (emergency_warnings (collect_recommendations conditions severity duration e)) \<and>
         set (self_care (generate_recommendations list_set conditions severity duration e)) =
           set (self_care (collect_recommendations conditions severity duration e)) \<and>
         set (when_to_seek_care
                (generate_recommendations list_set conditions severity duration e)) =
           set (when_to_seek_care (collect_recommendations conditions severity duration e)) \<and>
         set (follow_up (generate_recommendations list_set conditions severity duration e)) =
           set (follow_up (collect_recommendations conditions severity duration e))"
  using assms by (simp add: generate_recommendations_def set_semantics_def Let_def)

theorem generate_recommendations_distinct_witness:
  "set_semantics remdups \<and>
   self_care (collect_recommendations [''Common Cold'', ''Gastroenteritis''] ''severe''
       ''more_than_2_weeks''
       \<lparr>is_emergency = True, urgency_level = ''critical'', warning_signs = [],
         recommendation = ''''\<rparr>) =
     [''rest'', ''fluids'', ''over-the-counter medications'', ''rest'', ''clear fluids'',
      ''bland diet'', ''rehydration'', ''Get adequate rest'', ''Stay hydrated'',
      ''Monitor symptoms for changes'', ''Avoid known triggers or irritants''] \<and>
   distinct (self_care (generate_recommendations remdups [''Common Cold'', ''Gastroenteritis'']
       ''severe'' ''more_than_2_weeks''
       \<lparr>is_emergency = True, urgency_level = ''critical'', warning_signs = [],
         recommendation = ''''\<rparr>))"
proof -
  have s: "set_semantics remdups"
    by (simp add: set_semantics_def)
  have c: "self_care (collect_recommendations [''Common Cold'', ''Gastroenteritis''] ''severe''
       ''more_than_2_weeks''
       \<lparr>is_emergency = True, urgency_level = ''critical'', warning_signs = [],
         recommendation = ''''\<rparr>) =
     [''rest'', ''fluids'', ''over-the-counter medications'', ''rest'', ''clear fluids'',
      ''bland diet'', ''rehydration'', ''Get adequate rest'', ''Stay hydrated'',
      ''Monitor symptoms for changes'', ''Avoid known triggers or irritants'']"
    by code_simp
  show ?thesis
    using generate_recommendations_distinct [OF s, of "[''Common Cold'', ''Gastroenteritis'']"
        "''severe''" "''more_than_2_weeks''"
        "\<lparr>is_emergency = True, urgency_level = ''critical'', warning_signs = [],
          recommendation = ''''\<rparr>"] s c
    by simp
qed

text \<open>
  C8. \<open>get_common_symptoms\<close> returns the known symptom phrases of all categories of
  the knowledge base, each once, in ascending lexicographic order (the order of
  \<^typ>\<open>string\<close> is the lexicographic one over the character codes).
\<close>

theorem get_common_symptoms_sorted:
  assumes "set_semantics list_set"
  shows "set (get_common_symptoms list_set) =
           (\<Union>data \<in> set medical_knowledge. set (kc_symptoms data)) \<and>
         distinct (get_common_symptoms list_set) \<and>
         sorted (get_common_symptoms list_set)"
  using assms by (simp add: get_common_symptoms_def set_semantics_def fold_extend)

theorem get_common_symptoms_sorted_witness:
  "set_semantics remdups \<and>
   get_common_symptoms remdups =
     [''abdominal pain'', ''blisters'', ''bloating'', ''bruising'',
      ''chest pain'', ''confusion'', ''congestion'', ''cough'', ''diarrhea'',
      ''dizziness'', ''fatigue'', ''headache'', ''irregular heartbeat'',
      ''itching'', ''limited range of motion'', ''loss of appetite'',
      ''nausea'', ''pain'', ''rash'', ''redness'', ''runny nose'',
      ''sensitivity to light'', ''shortness of breath'', ''sore throat'',
      ''stiffness'', ''swelling'', ''vomiting'', ''wheezing''] \<and>
   distinct (get_common_symptoms remdups) \<and>
   sorted (get_common_symptoms remdups)"
proof -
  have s: "set_semantics remdups"
    by (simp add: set_semantics_def)
  have v: "get_common_symptoms remdups =
     [''abdominal pain'', ''blisters'', ''bloating'', ''bruising'',
      ''chest pain'', ''confusion'', ''congestion'', ''cough'', ''diarrhea'',
      ''dizziness'', ''fatigue'', ''headache'', ''irregular heartbeat'',
      ''itching'', ''limited range of motion'', ''loss of appetite'',
      ''nausea'', ''pain'', ''rash'', ''redness'', ''runny nose'',
      ''sensitivity to light'', ''shortness of breath'', ''sore throat'',
      ''stiffness'', ''swelling'', ''vomiting'', ''wheezing'']"
    by code_simp
  show ?thesis
    using get_common_symptoms_sorted [OF s] s v by simp
qed

subsection \<open>Search over both tables\<close>

lemma name_matches_sublist: "name_matches lower q n \<longleftrightarrow> sublist (lower q) (lower n)"
  by (simp add: name_matches_def str_in_sublist)

lemma bigram_in_zip: "(x, y) \<in> set (zip (ps @ x # y # r) (tl (ps @ x # y # r)))"
  by (induction ps) (auto simp: tl_append split: list.splits)

lemma no_shared_match:
  assumes "2 \<le> length q" and "sublist q a"
    and "list_all (\<lambda>p. p \<notin> set (zip b (tl b))) (zip a (tl a))"
  shows "\<not> sublist q b"
proof
  assume "sublist q b"
  from assms(1) obtain x y r where q: "q = x # y # r"
    by (cases q; cases "tl q") auto
  from assms(2) obtain ps ss where "a = ps @ x # y # (r @ ss)"
    by (auto simp: sublist_def q)
  then have ina: "(x, y) \<in> set (zip a (tl a))"
    using bigram_in_zip by metis
  from \<open>sublist q b\<close> obtain ps' ss' where "b = ps' @ x # y # (r @ ss')"
    by (auto simp: sublist_def q)
  then have "(x, y) \<in> set (zip b (tl b))"
    using bigram_in_zip by metis
  with ina assms(3) show False
    by (auto simp: list_all_iff)
qed

lemma length_profile_results: "length (profile_results lower q) \<le> 4"
proof -
  have "length (profile_results lower q) \<le> length condition_database"
    by (simp add: profile_results_def)
  also have "length condition_database = 4"
    by (simp add: condition_database_def)
  finally show ?thesis .
qed

lemma profile_entry_found:
  assumes "map_of condition_database name = Some profile" and "name_matches lower q name"
  shows "Profile_Entry name (cp_symptoms profile) (cp_severity profile) \<in> set (profile_results lower q)"
proof -
  have "(name, profile) \<in> set condition_database"
    using assms(1) by (rule map_of_SomeD)
  with assms(2) have "(name, profile) \<in>
      set (filter (\<lambda>(condition_name, condition_data). name_matches lower q condition_name)
             condition_database)"
    by simp
  then show ?thesis
    unfolding profile_results_def by force
qed




lemma profile_names:
  "map fst condition_database = [''Common Cold'', ''Influenza'', ''Migraine'', ''Gastroenteritis'']"
  by (simp add: condition_database_def)

lemma length_medical_knowledge: "length medical_knowledge = 6"
  by (simp add: medical_knowledge_def)

lemma category_conditions:
  "kc_conditions (medical_knowledge ! 0) =
     [''Common Cold'', ''Flu'', ''Bronchitis'', ''Pneumonia'', ''Asthma'']"
  "kc_conditions (medical_knowledge ! 1) =
     [''Food Poisoning'', ''Gastritis'', ''Gastroenteritis'', ''Irritable Bowel Syndrome'']"
  "kc_conditions (medical_knowledge ! 2) =
     [''Migraine'', ''Tension Headache'', ''Cluster Headache'', ''Concussion'']"
  "kc_conditions (medical_knowledge ! 3) =
     [''Hypertension'', ''Angina'', ''Heart Attack'', ''Arrhythmia'']"
  "kc_conditions (medical_knowledge ! 4) =
     [''Sprain'', ''Strain'', ''Arthritis'', ''Fracture'', ''Muscle Pain'']"
  "kc_conditions (medical_knowledge ! 5) =
     [''Rash'', ''Eczema'', ''Psoriasis'', ''Allergic Reaction'', ''Infection'']"
  by (simp_all add: medical_knowledge_def)

lemma nat_less_6: "(i::nat) < 6 \<Longrightarrow> i = 0 \<or> i = 1 \<or> i = 2 \<or> i = 3 \<or> i = 4 \<or> i = 5"
  by arith

lemma both_tables_cases:
  assumes "map_of condition_database name = Some profile"
    and "data \<in> set medical_knowledge" and "name \<in> set (kc_conditions data)"
  shows "(name = ''Common Cold'' \<and> data = medical_knowledge ! 0) \<or>
         (name = ''Gastroenteritis'' \<and> data = medical_knowledge ! 1) \<or>
         (name = ''Migraine'' \<and> data = medical_knowledge ! 2)"
proof -
  have "(name, profile) \<in> set condition_database"
    using assms(1) by (rule map_of_SomeD)
  then have "name \<in> set (map fst condition_database)"
    by force
  then have n: "name = ''Common Cold'' \<or> name = ''Influenza'' \<or> name = ''Migraine'' \<or>
                name = ''Gastroenteritis''"
    unfolding profile_names by simp
  from assms(2) obtain i where i: "i < 6" and d: "data = medical_knowledge ! i"
    unfolding in_set_conv_nth length_medical_knowledge by blast
  from nat_less_6 [OF i] show ?thesis
  proof (elim disjE)
    assume "i = 0"
    with assms(3) d have "name \<in> set [''Common Cold'', ''Flu'', ''Bronchitis'', ''Pneumonia'', ''Asthma'']"
      by (simp only: category_conditions)
    with n \<open>i = 0\<close> d show ?thesis by auto
  next
    assume "i = 1"
    with assms(3) d have "name \<in> set [''Food Poisoning'', ''Gastritis'', ''Gastroenteritis'', ''Irritable Bowel Syndrome'']"
      by (simp only: category_conditions)
    with n \<open>i = 1\<close> d show ?thesis by auto
  next
    assume "i = 2"
    with assms(3) d have "name \<in> set [''Migraine'', ''Tension Headache'', ''Cluster Headache'', ''Concussion'']"
      by (simp only: category_conditions)
    with n \<open>i = 2\<close> d show ?thesis by auto
  next
    assume "i = 3"
    with assms(3) d have "name \<in> set [''Hypertension'', ''Angina'', ''Heart Attack'', ''Arrhythmia'']"
      by (simp only: category_conditions)
    with n show ?thesis by auto
  next
    assume "i = 4"
    with assms(3) d have "name \<in> set [''Sprain'', ''Strain'', ''Arthritis'', ''Fracture'', ''Muscle Pain'']"
      by (simp only: category_conditions)
    with n show ?thesis by auto
  next
    assume "i = 5"
    with assms(3) d have "name \<in> set [''Rash'', ''Eczema'', ''Psoriasis'', ''Allergic Reaction'', ''Infection'']"
      by (simp only: category_conditions)
    with n show ?thesis by auto
  qed
qed

lemma is_ascii_sublist: "sublist a b \<Longrightarrow> is_ascii b \<Longrightarrow> is_ascii a"
  using set_mono_sublist [of a b] by (auto simp: is_ascii_def list_all_iff)

lemma ascii_lower_char_small:
  "(of_char c :: nat) < 128 \<Longrightarrow> (of_char (ascii_lower_char c) :: nat) < 128"
  by (simp add: ascii_lower_char_def Let_def)

lemma is_ascii_lower: "is_ascii s \<Longrightarrow> is_ascii (ascii_lower s)"
  by (simp add: is_ascii_def ascii_lower_def list_all_iff ascii_lower_char_small)

lemma str_len_ascii: "is_ascii s \<Longrightarrow> str_len s = length s"
  by (induction s) (simp_all add: is_ascii_def str_len_def)

lemma no_match:
  assumes "lower_semantics lower" and "2 \<le> str_len q" and "name_matches lower q a"
    and "is_ascii a" and "is_ascii b"
    and "list_all (\<lambda>p. p \<notin> set (zip (ascii_lower b) (tl (ascii_lower b))))
           (zip (ascii_lower a) (tl (ascii_lower a)))"
  shows "\<not> name_matches lower q b"
proof -
  have la: "lower a = ascii_lower a" and lb: "lower b = ascii_lower b"
    using assms(1,4,5) by (simp_all add: lower_semantics_def)
  have sub: "sublist (lower q) (ascii_lower a)"
    using assms(3) by (simp add: name_matches_sublist la)
  then have "is_ascii (lower q)"
    using is_ascii_lower [OF assms(4)] by (rule is_ascii_sublist)
  then have "str_len (lower q) = length (lower q)"
    by (rule str_len_ascii)
  moreover have "str_len q \<le> str_len (lower q)"
    using assms(1) by (simp add: lower_semantics_def)
  ultimately have "2 \<le> length (lower q)"
    using assms(2) by simp
  then have "\<not> sublist (lower q) (ascii_lower b)"
    using sub assms(6) by (rule no_shared_match)
  then show ?thesis by (simp add: name_matches_sublist lb)
qed

lemma names_ascii:
  "is_ascii ''Common Cold''" "is_ascii ''Flu''" "is_ascii ''Bronchitis''" "is_ascii ''Asthma''"
  "is_ascii ''Gastroenteritis''" "is_ascii ''Migraine''"
  by code_simp+

lemma apart:
  "list_all (\<lambda>p. p \<notin> set (zip (ascii_lower ''Common Cold'') (tl (ascii_lower ''Common Cold''))))
     (zip (ascii_lower ''Gastroenteritis'') (tl (ascii_lower ''Gastroenteritis'')))"
  "list_all (\<lambda>p. p \<notin> set (zip (ascii_lower ''Flu'') (tl (ascii_lower ''Flu''))))
     (zip (ascii_lower ''Gastroenteritis'') (tl (ascii_lower ''Gastroenteritis'')))"
  "list_all (\<lambda>p. p \<notin> set (zip (ascii_lower ''Common Cold'') (tl (ascii_lower ''Common Cold''))))
     (zip (ascii_lower ''Migraine'') (tl (ascii_lower ''Migraine'')))"
  "list_all (\<lambda>p. p \<notin> set (zip (ascii_lower ''Flu'') (tl (ascii_lower ''Flu''))))
     (zip (ascii_lower ''Migraine'') (tl (ascii_lower ''Migraine'')))"
  "list_all (\<lambda>p. p \<notin> set (zip (ascii_lower ''Bronchitis'') (tl (ascii_lower ''Bronchitis''))))
     (zip (ascii_lower ''Migraine'') (tl (ascii_lower ''Migraine'')))"
  "list_all (\<lambda>p. p \<notin> set (zip (ascii_lower ''Asthma'') (tl (ascii_lower ''Asthma''))))
     (zip (ascii_lower ''Migraine'') (tl (ascii_lower ''Migraine'')))"
  by code_simp+

lemma medical_knowledge_nth:
  "medical_knowledge =
     [medical_knowledge ! 0, medical_knowledge ! 1, medical_knowledge ! 2,
      medical_knowledge ! 3, medical_knowledge ! 4, medical_knowledge ! 5]"
  by (simp add: medical_knowledge_def)

lemma category_results_all:
  "concat (map (category_results lower q) medical_knowledge) =
     category_results lower q (medical_knowledge ! 0) @ category_results lower q (medical_knowledge ! 1) @
     category_results lower q (medical_knowledge ! 2) @ category_results lower q (medical_knowledge ! 3) @
     category_results lower q (medical_knowledge ! 4) @ category_results lower q (medical_knowledge ! 5)"
proof -
  have "concat (map (category_results lower q) medical_knowledge) =
        concat (map (category_results lower q)
          [medical_knowledge ! 0, medical_knowledge ! 1, medical_knowledge ! 2,
           medical_knowledge ! 3, medical_knowledge ! 4, medical_knowledge ! 5])"
    using medical_knowledge_nth by (rule arg_cong)
  then show ?thesis by simp
qed

lemma length_category_results:
  "length (category_results lower q data) \<le> length (kc_conditions data)"
  by (simp add: category_results_def)

lemma take_keeps_both:
  assumes "P \<in> set A" and "length A + length B < n"
  shows "\<exists>us vs ws. take n (A @ B @ C # rest) = us @ P # vs @ C # ws"
proof -
  from split_list [OF assms(1)] obtain us vs where A: "A = us @ P # vs"
    by blast
  have "take n (A @ B @ C # rest) = A @ B @ C # take (n - Suc (length A + length B)) rest"
    using assms(2) by (simp add: take_Cons')
  then have "take n (A @ B @ C # rest) =
             us @ P # (vs @ B) @ C # take (n - Suc (length A + length B)) rest"
    by (simp add: A)
  then show ?thesis by blast
qed

lemma category_entry_early:
  assumes "lower_semantics lower" and "2 \<le> str_len q"
    and "map_of condition_database name = Some profile"
    and "data \<in> set medical_knowledge" and "name \<in> set (kc_conditions data)"
    and "name_matches lower q name"
  shows "\<exists>B rest. concat (map (category_results lower q) medical_knowledge) =
            B @ Category_Entry name (kc_category data) (kc_symptoms data) # rest \<and>
            length B \<le> 5"
  using both_tables_cases [OF assms(3,4,5)]
proof (elim disjE conjE)
  assume n: "name = ''Common Cold''" and d: "data = medical_knowledge ! 0"
  have m: "name_matches lower q ''Common Cold''"
    using assms(6) n by simp
  have "category_results lower q (medical_knowledge ! 0) =
          Category_Entry ''Common Cold'' (kc_category (medical_knowledge ! 0))
            (kc_symptoms (medical_knowledge ! 0)) #
          map (\<lambda>c. Category_Entry c (kc_category (medical_knowledge ! 0))
                 (kc_symptoms (medical_knowledge ! 0)))
            (filter (name_matches lower q) [''Flu'', ''Bronchitis'', ''Pneumonia'', ''Asthma''])"
    by (simp add: category_results_def category_conditions m del: One_nat_def)
  then have "\<exists>rest. concat (map (category_results lower q) medical_knowledge) =
          [] @ Category_Entry name (kc_category data) (kc_symptoms data) # rest"
    by (simp add: category_results_all n d del: One_nat_def)
  then show ?thesis
    by (metis le0 list.size(3))
next
  assume n: "name = ''Gastroenteritis''" and d: "data = medical_knowledge ! 1"
  have m: "name_matches lower q ''Gastroenteritis''"
    using assms(6) n by simp
  have n1: "\<not> name_matches lower q ''Common Cold''"
    by (rule no_match [OF assms(1,2) m names_ascii(5) names_ascii(1) apart(1)])
  have n2: "\<not> name_matches lower q ''Flu''"
    by (rule no_match [OF assms(1,2) m names_ascii(5) names_ascii(2) apart(2)])
  let ?mk = "\<lambda>c. Category_Entry c (kc_category (medical_knowledge ! 1))
                 (kc_symptoms (medical_knowledge ! 1))"
  have l0: "length (category_results lower q (medical_knowledge ! 0)) \<le> 3"
    by (simp add: category_results_def category_conditions n1 n2 del: One_nat_def)
  have c1: "category_results lower q (medical_knowledge ! 1) =
          map ?mk (filter (name_matches lower q) [''Food Poisoning'', ''Gastritis'']) @
          ?mk ''Gastroenteritis'' #
          map ?mk (filter (name_matches lower q) [''Irritable Bowel Syndrome''])"
    by (simp add: category_results_def category_conditions m del: One_nat_def)
  have l1: "length (map ?mk (filter (name_matches lower q) [''Food Poisoning'', ''Gastritis''])) \<le> 2"
    by simp
  have "\<exists>rest. concat (map (category_results lower q) medical_knowledge) =
          (category_results lower q (medical_knowledge ! 0) @
           map ?mk (filter (name_matches lower q) [''Food Poisoning'', ''Gastritis''])) @
          Category_Entry name (kc_category data) (kc_symptoms data) # rest"
    by (simp add: category_results_all c1 n d del: One_nat_def)
  moreover have "length (category_results lower q (medical_knowledge ! 0) @
           map ?mk (filter (name_matches lower q) [''Food Poisoning'', ''Gastritis''])) \<le> 5"
    using l0 l1 by simp
  ultimately show ?thesis by blast
next
  assume n: "name = ''Migraine''" and d: "data = medical_knowledge ! 2"
  have m: "name_matches lower q ''Migraine''"
    using assms(6) n by simp
  have n1: "\<not> name_matches lower q ''Common Cold''"
    by (rule no_match [OF assms(1,2) m names_ascii(6) names_ascii(1) apart(3)])
  have n2: "\<not> name_matches lower q ''Flu''"
    by (rule no_match [OF assms(1,2) m names_ascii(6) names_ascii(2) apart(4)])
  have n3: "\<not> name_matches lower q ''Bronchitis''"
    by (rule no_match [OF assms(1,2) m names_ascii(6) names_ascii(3) apart(5)])
  have n4: "\<not> name_matches lower q ''Asthma''"
    by (rule no_match [OF assms(1,2) m names_ascii(6) names_ascii(4) apart(6)])
  let ?mk = "\<lambda>c. Category_Entry c (kc_category (medical_knowledge ! 2))
                 (kc_symptoms (medical_knowledge ! 2))"
  have l0: "length (category_results lower q (medical_knowledge ! 0)) \<le> 1"
    by (simp add: category_results_def category_conditions n1 n2 n3 n4 del: One_nat_def)
  have "length (category_results lower q (medical_knowledge ! 1)) \<le>
          length (kc_conditions (medical_knowledge ! 1))"
    by (rule length_category_results)
  then have l1: "length (category_results lower q (medical_knowledge ! 1)) \<le> 4"
    by (simp add: category_conditions del: One_nat_def)
  have c2: "category_results lower q (medical_knowledge ! 2) =
          ?mk ''Migraine'' #
          map ?mk (filter (name_matches lower q)
                     [''Tension Headache'', ''Cluster Headache'', ''Concussion''])"
    by (simp add: category_results_def category_conditions m del: One_nat_def)
  have "\<exists>rest. concat (map (category_results lower q) medical_knowledge) =
          (category_results lower q (medical_knowledge ! 0) @
           category_results lower q (medical_knowledge ! 1)) @
          Category_Entry name (kc_category data) (kc_symptoms data) # rest"
    by (simp add: category_results_all c2 n d del: One_nat_def)
  moreover have "length (category_results lower q (medical_knowledge ! 0) @
           category_results lower q (medical_knowledge ! 1)) \<le> 5"
    using l0 l1 by simp
  ultimately show ?thesis by blast
qed

lemma both_returned:
  assumes "lower_semantics lower" and "2 \<le> str_len q"
    and "map_of condition_database name = Some profile"
    and "data \<in> set medical_knowledge" and "name \<in> set (kc_conditions data)"
    and "name_matches lower q name"
  shows "\<exists>us vs ws. search_conditions lower q =
           us @ Profile_Entry name (cp_symptoms profile) (cp_severity profile) # vs @
           Category_Entry name (kc_category data) (kc_symptoms data) # ws"
proof -
  from category_entry_early [OF assms] obtain B rest
    where c: "concat (map (category_results lower q) medical_knowledge) =
                B @ Category_Entry name (kc_category data) (kc_symptoms data) # rest"
      and b: "length B \<le> 5"
    by blast
  have p: "Profile_Entry name (cp_symptoms profile) (cp_severity profile)
             \<in> set (profile_results lower q)"
    by (rule profile_entry_found [OF assms(3,6)])
  have "length (profile_results lower q) + length B < 10"
    using length_profile_results [of lower q] b by simp
  from take_keeps_both [OF p this] show ?thesis
    by (simp add: search_conditions_def search_results_def c)
qed

lemma ascii_lower_char_continuation:
  "(128 \<le> (of_char (ascii_lower_char c) :: nat) \<and> (of_char (ascii_lower_char c) :: nat) < 192) \<longleftrightarrow>
   (128 \<le> (of_char c :: nat) \<and> (of_char c :: nat) < 192)"
  by (simp add: ascii_lower_char_def Let_def)

lemma str_len_ascii_lower: "str_len (ascii_lower s) = str_len s"
proof -
  let ?P = "\<lambda>c. \<not> (128 \<le> (of_char c :: nat) \<and> (of_char c :: nat) < 192)"
  have "?P (ascii_lower_char c) = ?P c" for c
    by (simp only: ascii_lower_char_continuation)
  then have "?P \<circ> ascii_lower_char = ?P"
    by (simp only: comp_def)
  moreover have "length (filter ?P (map ascii_lower_char s)) =
                 length (filter (?P \<circ> ascii_lower_char) s)"
    by (simp only: filter_map length_map)
  ultimately show ?thesis
    by (simp only: str_len_def ascii_lower_def)
qed

lemma lower_semantics_ascii: "lower_semantics ascii_lower"
  by (simp add: lower_semantics_def str_len_ascii_lower)

lemma ascii_lower_char_large:
  "(of_char (ascii_lower_char c) :: nat) < 128 \<Longrightarrow> (of_char c :: nat) < 128"
  by (simp add: ascii_lower_char_def Let_def split: if_splits)

lemma is_ascii_lower_rev: "is_ascii (ascii_lower s) \<Longrightarrow> is_ascii s"
  by (simp add: is_ascii_def ascii_lower_def list_all_iff ascii_lower_char_large)

text \<open>
  With the ASCII folding for \<open>lower\<close>, a query that matches a name of both tables is
  itself ASCII text, so that its length in bytes is its length in characters.
\<close>

lemma both_returned_ascii:
  assumes "2 \<le> length q"
    and "map_of condition_database name = Some profile"
    and "data \<in> set medical_knowledge" and "name \<in> set (kc_conditions data)"
    and "sublist (ascii_lower q) (ascii_lower name)"
  shows "\<exists>us vs ws. search_conditions ascii_lower q =
           us @ Profile_Entry name (cp_symptoms profile) (cp_severity profile) # vs @
           Category_Entry name (kc_category data) (kc_symptoms data) # ws"
proof -
  have "is_ascii name"
    using both_tables_cases [OF assms(2,3,4)] names_ascii by auto
  then have "is_ascii (ascii_lower name)"
    by (rule is_ascii_lower)
  with assms(5) have "is_ascii (ascii_lower q)"
    by (rule is_ascii_sublist)
  then have "is_ascii q"
    by (rule is_ascii_lower_rev)
  then have "2 \<le> str_len q"
    using assms(1) by (simp add: str_len_ascii)
  moreover have "name_matches ascii_lower q name"
    using assms(5) by (simp add: name_matches_sublist)
  ultimately show ?thesis
    using both_returned [OF lower_semantics_ascii _ assms(2,3,4)] by blast
qed




end
